theory Spec2Isabelle
  imports Complex_Main
begin

section \<open>Scalars, vectors and matrices\<close>

text \<open>
  The kernels of \<^verbatim>\<open>tetra.cuh\<close> are templates over a scalar type \<^verbatim>\<open>T\<close> (or \<^verbatim>\<open>S\<close>) that
  is instantiated with a floating-point type.

  The two forward intersection tests are modelled for an arbitrary scalar type \<open>'a\<close>.
  Its sum, difference, negation, product, quotient and order are the operations of the
  type, of which nothing is assumed: they may round, overflow to an infinity, or yield a
  value that compares false with everything. A literal of the source is converted to the
  scalar type by a function \<open>T\<close>, the first argument of the two tests, applied to the
  number that the literal denotes: \<^verbatim>\<open>1e-8f\<close> is the single precision number
  \<open>11258999 / 2^50\<close>, which is a little less than the decimal \<open>1e-8\<close>, and \<^verbatim>\<open>1e10f\<close> is
  \<open>10^10\<close>. What is proved of the two tests for every \<open>T\<close> holds in the arithmetic of the
  device, whatever it is.

  The backward routines and the Gaussian integrals are modelled in exact arithmetic:
  their scalar is a \<^typ>\<open>real\<close>, and they call the forward test at the conversion \<open>exact\<close>,
  which leaves a literal as it is. There \<open>1 / a\<close> at \<open>a = 0\<close> is \<open>0\<close>, where the device
  yields an infinity; no theorem of this file depends on the value of a division by zero.
  The concrete inputs below are evaluated at \<open>exact\<close> as well.

  \<^verbatim>\<open>vec3<T>\<close> is the GLM vector of three components; \<^verbatim>\<open>mat3<S>\<close>, used by the integrals
  only, is the GLM matrix stored as three columns.
\<close>

datatype 'a vec3 = Vec3 'a 'a 'a

datatype mat3 = Mat3 "real vec3" "real vec3" "real vec3"

definition exact :: "real \<Rightarrow> real" where
  "exact x = x"

instantiation vec3 :: (plus) plus
begin

fun plus_vec3 :: "'a vec3 \<Rightarrow> 'a vec3 \<Rightarrow> 'a vec3" where
  "plus_vec3 (Vec3 a b c) (Vec3 a' b' c') = Vec3 (a + a') (b + b') (c + c')"

instance ..

end

instantiation vec3 :: (minus) minus
begin

fun minus_vec3 :: "'a vec3 \<Rightarrow> 'a vec3 \<Rightarrow> 'a vec3" where
  "minus_vec3 (Vec3 a b c) (Vec3 a' b' c') = Vec3 (a - a') (b - b') (c - c')"

instance ..

end

instantiation vec3 :: (uminus) uminus
begin

fun uminus_vec3 :: "'a vec3 \<Rightarrow> 'a vec3" where
  "uminus_vec3 (Vec3 a b c) = Vec3 (- a) (- b) (- c)"

instance ..

end

instantiation vec3 :: (zero) zero
begin

definition zero_vec3 :: "'a vec3" where
  "zero_vec3 = Vec3 0 0 0"

instance ..

end

instance vec3 :: (ab_group_add) ab_group_add
proof
  fix u v w :: "'a vec3"
  show "u + v + w = u + (v + w)"
    by (cases u, cases v, cases w) (simp add: add.assoc)
  show "u + v = v + u"
    by (cases u, cases v) (simp add: add.commute)
  show "0 + u = u"
    by (cases u) (simp add: zero_vec3_def)
  show "- u + u = 0"
    by (cases u) (simp add: zero_vec3_def)
  show "u - v = u + - v"
    by (cases u, cases v) simp
qed

instantiation mat3 :: ab_group_add
begin

fun plus_mat3 :: "mat3 \<Rightarrow> mat3 \<Rightarrow> mat3" where
  "plus_mat3 (Mat3 a b c) (Mat3 a' b' c') = Mat3 (a + a') (b + b') (c + c')"

fun minus_mat3 :: "mat3 \<Rightarrow> mat3 \<Rightarrow> mat3" where
  "minus_mat3 (Mat3 a b c) (Mat3 a' b' c') = Mat3 (a - a') (b - b') (c - c')"

fun uminus_mat3 :: "mat3 \<Rightarrow> mat3" where
  "uminus_mat3 (Mat3 a b c) = Mat3 (- a) (- b) (- c)"

definition zero_mat3 :: mat3 where
  "zero_mat3 = Mat3 0 0 0"

instance
proof
  fix u v w :: mat3
  show "u + v + w = u + (v + w)"
    by (cases u, cases v, cases w) (simp add: add.assoc)
  show "u + v = v + u"
    by (cases u, cases v) (simp add: add.commute)
  show "0 + u = u"
    by (cases u) (simp add: zero_mat3_def)
  show "- u + u = 0"
    by (cases u) (simp add: zero_mat3_def)
  show "u - v = u + - v"
    by (cases u, cases v) simp
qed

end

text \<open>\<^verbatim>\<open>glm::dot\<close> and \<^verbatim>\<open>glm::cross\<close>.\<close>

fun dot :: "'a::{plus,times} vec3 \<Rightarrow> 'a vec3 \<Rightarrow> 'a" where
  "dot (Vec3 a b c) (Vec3 a' b' c') = a * a' + b * b' + c * c'"

fun cross :: "'a::{minus,times} vec3 \<Rightarrow> 'a vec3 \<Rightarrow> 'a vec3" where
  "cross (Vec3 a b c) (Vec3 a' b' c') =
     Vec3 (b * c' - b' * c) (c * a' - c' * a) (a * b' - a' * b)"

text \<open>Scalar times vector, vector times scalar (GLM has both operators).\<close>

fun smulv :: "'a::times \<Rightarrow> 'a vec3 \<Rightarrow> 'a vec3" where
  "smulv k (Vec3 a b c) = Vec3 (k * a) (k * b) (k * c)"

fun vmuls :: "'a::times vec3 \<Rightarrow> 'a \<Rightarrow> 'a vec3" where
  "vmuls (Vec3 a b c) k = Vec3 (a * k) (b * k) (c * k)"

text \<open>
  Matrix times vector (the combination of the columns), scalar times matrix, matrix times
  scalar, and \<^verbatim>\<open>glm::outerProduct(c, r)\<close>, whose \<open>i\<close>-th column is \<open>c\<close> times the
  \<open>i\<close>-th component of \<open>r\<close>.
\<close>

fun mmulv :: "mat3 \<Rightarrow> real vec3 \<Rightarrow> real vec3" where
  "mmulv (Mat3 c0 c1 c2) (Vec3 a b c) = vmuls c0 a + vmuls c1 b + vmuls c2 c"

fun smulm :: "real \<Rightarrow> mat3 \<Rightarrow> mat3" where
  "smulm k (Mat3 c0 c1 c2) = Mat3 (smulv k c0) (smulv k c1) (smulv k c2)"

fun mmuls :: "mat3 \<Rightarrow> real \<Rightarrow> mat3" where
  "mmuls (Mat3 c0 c1 c2) k = Mat3 (vmuls c0 k) (vmuls c1 k) (vmuls c2 k)"

fun outerProduct :: "real vec3 \<Rightarrow> real vec3 \<Rightarrow> mat3" where
  "outerProduct c (Vec3 r0 r1 r2) = Mat3 (vmuls c r0) (vmuls c r1) (vmuls c r2)"

section \<open>Ray-triangle intersection\<close>

text \<open>
  \<^verbatim>\<open>ray_triangle_intersection\<close> returns a flag and writes \<^verbatim>\<open>t\<close> only when the flag is
  true; its caller reads \<^verbatim>\<open>t\<close> only then. The model returns \<open>Some t\<close> for a hit and
  \<open>None\<close> for no hit.

  \<open>EPSILON\<close> is the number that the literal \<^verbatim>\<open>1e-8f\<close> denotes, the single precision
  number nearest to \<open>1e-8\<close>; the source converts it to the scalar type.
\<close>

definition EPSILON :: real where
  "EPSILON = 11258999 / 2 ^ 50"

definition ray_triangle_intersection ::
  "(real \<Rightarrow> 'a::{plus,minus,uminus,times,inverse,ord}) \<Rightarrow>
     'a vec3 \<Rightarrow> 'a vec3 \<Rightarrow> 'a vec3 \<Rightarrow> 'a vec3 \<Rightarrow> 'a vec3 \<Rightarrow> 'a option" where
  "ray_triangle_intersection T o' d v0 v1 v2 =
     (let e1 = v1 - v0;
          e2 = v2 - v0;
          h = cross d e2;
          a = dot e1 h
      in if a > - T EPSILON \<and> a < T EPSILON then None
         else
           let f = T 1 / a;
               s = o' - v0;
               u = f * dot s h
           in if u < T 0 \<or> u > T 1 then None
              else
                let q = cross s e1;
                    v = f * dot d q
                in if v < T 0 \<or> u + v > T 1 then None
                   else Some (f * dot e2 q))"

text \<open>
  \<^verbatim>\<open>ray_triangle_intersection_vjp\<close> has three reference parameters for the vertex
  gradients. The model takes their incoming values and returns the outgoing ones; the
  statements of the source are the bindings of the \<open>let\<close>, in the source's order. The
  forward intermediates \<open>u\<close>, \<open>v\<close> and \<open>t\<close> are computed and never read, as in the source.
\<close>

definition ray_triangle_intersection_vjp ::
  "real vec3 \<Rightarrow> real vec3 \<Rightarrow> real vec3 \<Rightarrow> real vec3 \<Rightarrow> real vec3 \<Rightarrow> real \<Rightarrow>
     real vec3 \<times> real vec3 \<times> real vec3 \<Rightarrow> real vec3 \<times> real vec3 \<times> real vec3" where
  "ray_triangle_intersection_vjp o' d v0 v1 v2 v_t g =
     (case g of (v_v0, v_v1, v_v2) \<Rightarrow>
      let v_v0 = (0 :: real vec3);
          v_v1 = (0 :: real vec3);
          v_v2 = (0 :: real vec3);
          e1 = v1 - v0;
          e2 = v2 - v0;
          h = cross d e2;
          a = dot e1 h;
          f = 1 / a;
          s = o' - v0;
          dot_s_h = dot s h;
          u = f * dot_s_h;
          q = cross s e1;
          dot_d_q = dot d q;
          v = f * dot_d_q;
          dot_e2_q = dot e2 q;
          t = f * dot_e2_q;
          v_f = v_t * dot_e2_q;
          v_e2 = vmuls (smulv v_t q) f;
          v_q = vmuls (smulv v_t e2) f;
          v_s = cross e1 v_q;
          v_e1 = cross v_q s;
          v_v0 = v_v0 - v_s;
          v_a = - v_f / (a * a);
          v_e1 = v_e1 + smulv v_a h;
          v_h = smulv v_a e1;
          v_e2 = v_e2 + cross v_h d;
          v_v2 = v_v2 + v_e2;
          v_v0 = v_v0 - v_e2;
          v_v1 = v_v1 + v_e1;
          v_v0 = v_v0 - v_e1
      in (v_v0, v_v1, v_v2))"

section \<open>Ray-tetrahedron intersection\<close>

text \<open>
  The four outputs of \<^verbatim>\<open>ray_tetra_intersection\<close>. The face indices are \<^verbatim>\<open>int32_t\<close>
  values between \<open>-1\<close> and \<open>3\<close>, modelled as \<^typ>\<open>int\<close>.
\<close>

record 'a isect =
  entry_face_idx :: int
  exit_face_idx :: int
  t_entry :: 'a
  t_exit :: 'a

type_synonym 'a face = "'a vec3 \<times> 'a vec3 \<times> 'a vec3"

text \<open>The local table \<^verbatim>\<open>faces[4][3]\<close>.\<close>

definition faces :: "'a vec3 \<Rightarrow> 'a vec3 \<Rightarrow> 'a vec3 \<Rightarrow> 'a vec3 \<Rightarrow> 'a face list" where
  "faces v0 v1 v2 v3 = [(v0, v1, v2), (v1, v2, v3), (v2, v3, v0), (v3, v0, v1)]"

text \<open>
  The loop \<^verbatim>\<open>for (int i = 0; i < 4; ++i)\<close> over the rows of the table, as a recursion
  over the rows that remain, with the loop counter \<open>i\<close>.
\<close>

fun face_loop ::
  "(real \<Rightarrow> 'a::{plus,minus,uminus,times,inverse,ord}) \<Rightarrow>
     'a vec3 \<Rightarrow> 'a vec3 \<Rightarrow> 'a face list \<Rightarrow> int \<Rightarrow> 'a isect \<Rightarrow> 'a isect" where
  "face_loop T o' d [] i r = r"
| "face_loop T o' d ((a, b, c) # fs) i r =
     face_loop T o' d fs (i + 1)
       (case ray_triangle_intersection T o' d a b c of
          None \<Rightarrow> r
        | Some t_isct \<Rightarrow>
            let r = (if t_isct < t_entry r
                     then r\<lparr>entry_face_idx := i, t_entry := t_isct\<rparr> else r);
                r = (if t_isct > t_exit r
                     then r\<lparr>exit_face_idx := i, t_exit := t_isct\<rparr> else r)
            in r)"

definition ray_tetra_intersection ::
  "(real \<Rightarrow> 'a::{plus,minus,uminus,times,inverse,ord}) \<Rightarrow>
     'a vec3 \<Rightarrow> 'a vec3 \<Rightarrow> 'a vec3 \<Rightarrow> 'a vec3 \<Rightarrow> 'a vec3 \<Rightarrow> 'a vec3 \<Rightarrow> bool \<times> 'a isect" where
  "ray_tetra_intersection T o' d v0 v1 v2 v3 =
     (let r = \<lparr>entry_face_idx = - 1, exit_face_idx = - 1,
                t_entry = T (10 ^ 10), t_exit = T (- (10 ^ 10))\<rparr>;
          r = face_loop T o' d (faces v0 v1 v2 v3) 0 r
      in if entry_face_idx r < 0 \<and> exit_face_idx r < 0 then (False, r) else (True, r))"

text \<open>
  The two backward routines read \<^verbatim>\<open>faces[idx]\<close> with an index that nothing checks.
  A read outside the four rows is undefined behaviour in the source; in the model it is
  the error \<open>OutOfBounds\<close>.
\<close>

datatype error = OutOfBounds

definition face_at :: "'a face list \<Rightarrow> int \<Rightarrow> error + 'a face" where
  "face_at fs idx =
     (if 0 \<le> idx \<and> idx < int (length fs) then Inr (fs ! nat idx) else Inl OutOfBounds)"

text \<open>The four vertex gradient accumulators \<open>(v_v0, v_v1, v_v2, v_v3)\<close>.\<close>

type_synonym vgrads = "real vec3 \<times> real vec3 \<times> real vec3 \<times> real vec3"

text \<open>
  The \<^verbatim>\<open>switch\<close> on a face index that adds the three gradients of a face to the
  accumulators of its vertices. It has no \<^verbatim>\<open>default\<close>: any other index adds nothing.
  The source writes it four times, once for the entry and once for the exit face in each
  of the two backward routines. The parameters \<^verbatim>\<open>entry_face_idx\<close> and \<^verbatim>\<open>exit_face_idx\<close>
  of the shortcut routine are \<open>entry_idx\<close> and \<open>exit_idx\<close> below, the fields of the
  record having their names.
\<close>

fun switch_face_idx ::
  "int \<Rightarrow> real vec3 \<times> real vec3 \<times> real vec3 \<Rightarrow> vgrads \<Rightarrow> vgrads" where
  "switch_face_idx idx (f0, f1, f2) (v_v0, v_v1, v_v2, v_v3) =
     (if idx = 0 then (v_v0 + f0, v_v1 + f1, v_v2 + f2, v_v3)
      else if idx = 1 then (v_v0, v_v1 + f0, v_v2 + f1, v_v3 + f2)
      else if idx = 2 then (v_v0 + f2, v_v1, v_v2 + f0, v_v3 + f1)
      else if idx = 3 then (v_v0 + f1, v_v1 + f2, v_v2, v_v3 + f0)
      else (v_v0, v_v1, v_v2, v_v3))"

definition ray_tetra_intersection_vjp ::
  "real vec3 \<Rightarrow> real vec3 \<Rightarrow> real vec3 \<Rightarrow> real vec3 \<Rightarrow> real vec3 \<Rightarrow> real vec3 \<Rightarrow>
     real \<Rightarrow> real \<Rightarrow> vgrads \<Rightarrow> error + vgrads" where
  "ray_tetra_intersection_vjp o' d v0 v1 v2 v3 v_t_entry v_t_exit g =
     (if v_t_entry = 0 \<and> v_t_exit = 0 then Inr g
      else
        let g = (0, 0, 0, 0);
            (hit, r) = ray_tetra_intersection exact o' d v0 v1 v2 v3
        in if \<not> hit then Inr g
           else
             case face_at (faces v0 v1 v2 v3) (entry_face_idx r) of
               Inl e \<Rightarrow> Inl e
             | Inr (a, b, c) \<Rightarrow>
                 let v_entry_faces =
                       ray_triangle_intersection_vjp o' d a b c v_t_entry (0, 0, 0);
                     g = switch_face_idx (entry_face_idx r) v_entry_faces g
                 in (case face_at (faces v0 v1 v2 v3) (exit_face_idx r) of
                       Inl e \<Rightarrow> Inl e
                     | Inr (a, b, c) \<Rightarrow>
                         let v_exit_faces =
                               ray_triangle_intersection_vjp o' d a b c v_t_exit (0, 0, 0)
                         in Inr (switch_face_idx (exit_face_idx r) v_exit_faces g)))"

definition ray_tetra_intersection_vjp_shortcut ::
  "real vec3 \<Rightarrow> real vec3 \<Rightarrow> real vec3 \<Rightarrow> real vec3 \<Rightarrow> real vec3 \<Rightarrow> real vec3 \<Rightarrow>
     int \<Rightarrow> int \<Rightarrow> real \<Rightarrow> real \<Rightarrow> vgrads \<Rightarrow> error + vgrads" where
  "ray_tetra_intersection_vjp_shortcut o' d v0 v1 v2 v3 entry_idx exit_idx
       v_t_entry v_t_exit g =
     (if v_t_entry = 0 \<and> v_t_exit = 0 then Inr g
      else
        case face_at (faces v0 v1 v2 v3) entry_idx of
          Inl e \<Rightarrow> Inl e
        | Inr (a, b, c) \<Rightarrow>
            let v_entry_faces =
                  ray_triangle_intersection_vjp o' d a b c v_t_entry (0, 0, 0);
                g = switch_face_idx entry_idx v_entry_faces g
            in (case face_at (faces v0 v1 v2 v3) exit_idx of
                  Inl e \<Rightarrow> Inl e
                | Inr (a, b, c) \<Rightarrow>
                    let v_exit_faces =
                          ray_triangle_intersection_vjp o' d a b c v_t_exit (0, 0, 0)
                    in Inr (switch_face_idx exit_idx v_exit_faces g)))"

section \<open>The Gaussian integrals\<close>

text \<open>
  The macro \<^verbatim>\<open>PI\<close> is the decimal \<^verbatim>\<open>3.14159265358979323846\<close>. \<^verbatim>\<open>sqrtf\<close> and \<^verbatim>\<open>__expf\<close>
  are read as the real square root and exponential. The error function \<^verbatim>\<open>erff\<close> of the
  device library has no counterpart in the logic's library: \<open>integral\<close> takes it as its
  first argument, and what is proved holds for every function put there.
\<close>

definition PI :: real where
  "PI = 314159265358979323846 / 10 ^ 20"

definition integral ::
  "(real \<Rightarrow> real) \<Rightarrow> real vec3 \<Rightarrow> real vec3 \<Rightarrow> real \<Rightarrow> real \<Rightarrow> real vec3 \<Rightarrow> mat3 \<Rightarrow> real" where
  "integral erff ray_o ray_d tmin tmax mean3d precision =
     (let mu = mean3d - ray_o;
          aa = dot ray_d (mmulv precision ray_d)
      in if aa > 1 / 10 ^ 6 then
           let bb = dot ray_d (mmulv precision mu);
               beta1 = sqrt (aa * (1 / 2));
               beta2 = bb / aa
           in (1 / 2) * (erff (beta1 * (tmax - beta2)) - erff (beta1 * (tmin - beta2)))
         else 0)"


text \<open>
  \<^verbatim>\<open>integral_opacity_vjp\<close> has three reference parameters, \<^verbatim>\<open>v_mean3d\<close>,
  \<^verbatim>\<open>v_precision\<close> and \<^verbatim>\<open>v_density\<close>: the model takes their incoming values and returns
  the outgoing ones.
\<close>

definition integral_opacity_vjp ::
  "real \<Rightarrow> real vec3 \<Rightarrow> real vec3 \<Rightarrow> real vec3 \<Rightarrow> mat3 \<Rightarrow> real \<Rightarrow>
     real vec3 \<times> mat3 \<times> real \<Rightarrow> real vec3 \<times> mat3 \<times> real" where
  "integral_opacity_vjp density ray_o ray_d mean3d precision v_opacity g =
     (case g of (v_mean3d, v_precision, v_density) \<Rightarrow>
      if density = 0 then (v_mean3d, v_precision, v_density)
      else
        let mu = mean3d - ray_o;
            rr = dot ray_d (mmulv precision ray_d)
        in if rr > 1 / 10 ^ 6 then
             let rr_inv = 1 / rr;
                 dr = dot mu (mmulv precision ray_d);
                 dd = dot mu (mmulv precision mu);
                 cc = dd - dr * dr * rr_inv;
                 integral' = 2 * exp (- (1 / 2) * cc) * sqrt ((1 / 2) * PI * rr_inv);
                 opacity = 1 - exp (- density * integral');
                 v_density = v_density + v_opacity * integral' * (1 - opacity);
                 v_integral = v_opacity * density * (1 - opacity);
                 v_cc = - (1 / 2) * integral' * v_integral;
                 v_rr = v_cc * rr_inv;
                 v_dd = v_cc;
                 v_dr = - 2 * dr * rr_inv * v_cc;
                 v_rr = v_rr + dr * dr * rr_inv * rr_inv * v_cc;
                 v_mean3d = v_mean3d + vmuls (mmulv precision ray_d) v_dr;
                 v_mean3d = v_mean3d + vmuls (mmulv (smulm 2 precision) mu) v_dd;
                 v_precision = v_precision + mmuls (outerProduct ray_d ray_d) v_rr;
                 v_precision = v_precision + mmuls (outerProduct mu ray_d) v_dr;
                 v_precision = v_precision + mmuls (outerProduct mu mu) v_dd
             in (v_mean3d, v_precision, v_density)
           else (v_mean3d, v_precision, v_density))"

section \<open>Notions used in the statements\<close>

text \<open>Componentwise sum of two quadruples of vertex gradients.\<close>

fun vgrads_add :: "vgrads \<Rightarrow> vgrads \<Rightarrow> vgrads" where
  "vgrads_add (a0, a1, a2, a3) (b0, b1, b2, b3) = (a0 + b0, a1 + b1, a2 + b2, a3 + b3)"

text \<open>
  The inputs of the examples: the unit tetrahedron with its vertices at the origin and on
  the three axes, and rays that run down the \<open>z\<close> axis direction through \<open>(0.1, 0.1)\<close>.
\<close>

definition U0 :: "real vec3" where "U0 = Vec3 0 0 0"
definition U1 :: "real vec3" where "U1 = Vec3 1 0 0"
definition U2 :: "real vec3" where "U2 = Vec3 0 1 0"
definition U3 :: "real vec3" where "U3 = Vec3 0 0 1"
definition ray_down :: "real vec3" where "ray_down = Vec3 0 0 (- 1)"
definition origin_near :: "real vec3" where "origin_near = Vec3 (1 / 10) (1 / 10) 2"
definition origin_far :: "real vec3" where "origin_far = Vec3 (1 / 10) (1 / 10) (3 * 10 ^ 10)"

section \<open>The examples, evaluated\<close>

text \<open>
  The ray from \<open>(0.1, 0.1, 2)\<close> meets Face0 at \<open>t = 2\<close> and Face1 at \<open>t = 6/5\<close> and is
  parallel to Face2 and Face3. The ray from \<open>(0.1, 0.1, 3e10)\<close> meets the same two faces,
  both beyond \<open>t = 1e10\<close>.
\<close>

lemmas example_defs =
  U0_def U1_def U2_def U3_def ray_down_def origin_near_def origin_far_def

lemmas forward_defs = ray_triangle_intersection_def EPSILON_def exact_def Let_def

lemma near_face0: "ray_triangle_intersection exact origin_near ray_down U0 U1 U2 = Some 2"
  by (simp add: forward_defs example_defs)

lemma near_face1:
  "ray_triangle_intersection exact origin_near ray_down U1 U2 U3 = Some (6 / 5)"
  by (simp add: forward_defs example_defs)

lemma near_face2: "ray_triangle_intersection exact origin_near ray_down U2 U3 U0 = None"
  by (simp add: forward_defs example_defs)

lemma near_face3: "ray_triangle_intersection exact origin_near ray_down U3 U0 U1 = None"
  by (simp add: forward_defs example_defs)

lemma far_face0:
  "ray_triangle_intersection exact origin_far ray_down U0 U1 U2 = Some (3 * 10 ^ 10)"
  by (simp add: forward_defs example_defs)

lemma far_face1:
  "ray_triangle_intersection exact origin_far ray_down U1 U2 U3 = Some (3 * 10 ^ 10 - 4 / 5)"
  by (simp add: forward_defs example_defs)

lemma far_face2: "ray_triangle_intersection exact origin_far ray_down U2 U3 U0 = None"
  by (simp add: forward_defs example_defs)

lemma far_face3: "ray_triangle_intersection exact origin_far ray_down U3 U0 U1 = None"
  by (simp add: forward_defs example_defs)

lemma near_tetra:
  "ray_tetra_intersection exact origin_near ray_down U0 U1 U2 U3 =
     (True, \<lparr>entry_face_idx = 1, exit_face_idx = 0, t_entry = 6 / 5, t_exit = 2\<rparr>)"
  by (simp add: ray_tetra_intersection_def faces_def near_face0 near_face1 near_face2
      near_face3 Let_def exact_def)

lemma far_tetra:
  "ray_tetra_intersection exact origin_far ray_down U0 U1 U2 U3 =
     (True, \<lparr>entry_face_idx = - 1, exit_face_idx = 0, t_entry = 10 ^ 10,
             t_exit = 3 * 10 ^ 10\<rparr>)"
  by (simp add: ray_tetra_intersection_def faces_def far_face0 far_face1 far_face2
      far_face3 Let_def exact_def)

lemma near_shortcut:
  "ray_tetra_intersection_vjp_shortcut origin_near ray_down U0 U1 U2 U3 1 0 1 1
      (0, 0, 0, 0) =
     Inr (Vec3 0 0 (- (4 / 5)), Vec3 (- (1 / 10)) (- (1 / 10)) (- (1 / 5)),
          Vec3 (- (1 / 10)) (- (1 / 10)) (- (1 / 5)), Vec3 (- (4 / 5)) (- (4 / 5)) (- (4 / 5)))"
  by (simp add: ray_tetra_intersection_vjp_shortcut_def face_at_def faces_def
      ray_triangle_intersection_vjp_def example_defs zero_vec3_def Let_def)

lemma far_vjp:
  "ray_tetra_intersection_vjp origin_far ray_down U0 U1 U2 U3 1 1 (0, 0, 0, 0) =
     Inl OutOfBounds"
  by (simp add: ray_tetra_intersection_vjp_def far_tetra face_at_def faces_def)


section \<open>The triangle test\<close>

text \<open>
  Claim C4, as the code has it. For every ray \<open>(o, d)\<close> and triangle \<open>(v0, v1, v2)\<close>, in
  every arithmetic of the scalar type, with \<open>e1 = v1 - v0\<close>, \<open>e2 = v2 - v0\<close>,
  \<open>h = d \<times> e2\<close>, \<open>a = e1 \<cdot> h\<close>, \<open>f = 1/a\<close>, \<open>s = o - v0\<close>, \<open>u = f (s \<cdot> h)\<close>, \<open>q = s \<times> e1\<close>
  and \<open>v = f (d \<cdot> q)\<close>: the test reports no hit when \<open>-\<epsilon> < a\<close> and \<open>a < \<epsilon>\<close>, where \<open>\<epsilon>\<close> is
  the single precision literal \<^verbatim>\<open>1e-8f\<close>, that is \<open>11258999 / 2^50\<close>, converted to the scalar
  type; otherwise it rejects when \<open>u < 0\<close> or \<open>u > 1\<close> or \<open>v < 0\<close> or \<open>u + v > 1\<close>; otherwise
  it reports a hit with \<open>t = f (e2 \<cdot> q)\<close>. The parameter is not clamped: some input is a hit
  with a negative \<open>t\<close>.
\<close>

theorem ray_triangle_intersection_cases:
  "(let e1 = v1 - v0; e2 = v2 - v0; h = cross d e2; a = dot e1 h; f = T 1 / a;
        s = o' - v0; u = f * dot s h; q = cross s e1; v = f * dot d q
    in ray_triangle_intersection T o' d v0 v1 v2 =
         (if - T (11258999 / 2 ^ 50) < a \<and> a < T (11258999 / 2 ^ 50) then None
          else if u < T 0 \<or> T 1 < u \<or> v < T 0 \<or> T 1 < u + v then None
          else Some (f * dot e2 q))) \<and>
   (\<exists>p r w0 w1 w2 t. ray_triangle_intersection exact p r w0 w1 w2 = Some t \<and> t < 0)"
proof
  show "let e1 = v1 - v0; e2 = v2 - v0; h = cross d e2; a = dot e1 h; f = T 1 / a;
        s = o' - v0; u = f * dot s h; q = cross s e1; v = f * dot d q
    in ray_triangle_intersection T o' d v0 v1 v2 =
         (if - T (11258999 / 2 ^ 50) < a \<and> a < T (11258999 / 2 ^ 50) then None
          else if u < T 0 \<or> T 1 < u \<or> v < T 0 \<or> T 1 < u + v then None
          else Some (f * dot e2 q))"
    unfolding ray_triangle_intersection_def EPSILON_def Let_def
    by auto
next
  have "ray_triangle_intersection exact (Vec3 (1 / 8) (1 / 8) (- 1)) ray_down U0 U1 U2
          = Some (- 1)"
    by (simp add: forward_defs example_defs)
  then show
    "\<exists>p r w0 w1 w2 t. ray_triangle_intersection exact p r w0 w1 w2 = Some t \<and> t < 0"
    by (intro exI[of _ "- 1"] exI) (rule conjI, assumption, simp)
qed

text \<open>
  The theorem in exact arithmetic, on the triangle \<open>(0,0,0)\<close>, \<open>(1,0,0)\<close>, \<open>(0,1,0)\<close> and the
  ray from \<open>(1/8, 1/8, -1)\<close> with direction \<open>(0, 0, -1)\<close>, which starts below the triangle
  and points away from it: \<open>a = 1\<close>, \<open>u = v = 1/8\<close>, and the test reports a hit at
  \<open>t = -1\<close>. Every number of this computation is a binary fraction, so single precision
  computes the same.
\<close>

theorem ray_triangle_intersection_cases_witness:
  "ray_triangle_intersection exact (Vec3 (1 / 8) (1 / 8) (- 1)) (Vec3 0 0 (- 1))
     (Vec3 0 0 0) (Vec3 1 0 0) (Vec3 0 1 0) = Some (- 1)"
  using ray_triangle_intersection_cases
    [of "Vec3 1 0 0" "Vec3 0 0 0" "Vec3 0 1 0" "Vec3 0 0 (- 1)" exact
      "Vec3 (1 / 8) (1 / 8) (- 1)"]
  by (simp add: Let_def exact_def)

text \<open>
  Claim C4 as it is stated puts the bound at the decimal \<open>1e-8\<close>. On the triangle
  \<open>(0,0,0)\<close>, \<open>(\<epsilon>,0,0)\<close>, \<open>(0,1,0)\<close> with \<open>\<epsilon> = 11258999 / 2^50\<close>, the literal \<^verbatim>\<open>1e-8f\<close>, and
  the ray from \<open>(0,0,1)\<close> with direction \<open>(0, 0, -1)\<close>, the determinant is \<open>a = \<epsilon>\<close>, which
  is less than \<open>1e-8\<close>, and the test reports a hit, at \<open>t = 1\<close>.
\<close>

theorem epsilon_literal_counterexample:
  "\<bar>dot (Vec3 (11258999 / 2 ^ 50) 0 0 - Vec3 0 0 0)
        (cross (Vec3 0 0 (- 1)) (Vec3 0 1 0 - Vec3 0 0 (0 :: real)))\<bar> < 1 / 10 ^ 8 \<and>
   ray_triangle_intersection exact (Vec3 0 0 1) (Vec3 0 0 (- 1))
     (Vec3 0 0 0) (Vec3 (11258999 / 2 ^ 50) 0 0) (Vec3 0 1 0) = Some 1"
  by (simp add: forward_defs)

section \<open>The forward pass on the tetrahedron\<close>

text \<open>
  Claim C1, at the input where the code departs from it. On the unit tetrahedron and the
  ray with origin \<open>(0.1, 0.1, 3e10)\<close> and direction \<open>(0, 0, -1)\<close>, Face0 is hit at
  \<open>t = 3e10\<close> and Face1 at \<open>t = 3e10 - 0.8\<close>, Face2 and Face3 are not hit. Neither \<open>t\<close> is
  below the initial \<open>t_entry = 1e10\<close>, so the pass returns true with
  \<open>entry_face_idx = -1\<close> and \<open>t_entry = 1e10\<close>, which is the \<open>t\<close> of no hit face and not
  their minimum. The recomputing backward routine then reads the face table at this
  index \<open>-1\<close>.
\<close>

theorem sentinel_entry_failing_input:
  "ray_triangle_intersection exact (Vec3 (1 / 10) (1 / 10) (3 * 10 ^ 10)) (Vec3 0 0 (- 1))
     (Vec3 0 0 0) (Vec3 1 0 0) (Vec3 0 1 0) = Some (3 * 10 ^ 10) \<and>
   ray_triangle_intersection exact (Vec3 (1 / 10) (1 / 10) (3 * 10 ^ 10)) (Vec3 0 0 (- 1))
     (Vec3 1 0 0) (Vec3 0 1 0) (Vec3 0 0 1) = Some (3 * 10 ^ 10 - 4 / 5) \<and>
   ray_triangle_intersection exact (Vec3 (1 / 10) (1 / 10) (3 * 10 ^ 10)) (Vec3 0 0 (- 1))
     (Vec3 0 1 0) (Vec3 0 0 1) (Vec3 0 0 0) = None \<and>
   ray_triangle_intersection exact (Vec3 (1 / 10) (1 / 10) (3 * 10 ^ 10)) (Vec3 0 0 (- 1))
     (Vec3 0 0 1) (Vec3 0 0 0) (Vec3 1 0 0) = None \<and>
   ray_tetra_intersection exact (Vec3 (1 / 10) (1 / 10) (3 * 10 ^ 10)) (Vec3 0 0 (- 1))
     (Vec3 0 0 0) (Vec3 1 0 0) (Vec3 0 1 0) (Vec3 0 0 1) =
     (True, \<lparr>entry_face_idx = - 1, exit_face_idx = 0, t_entry = 10 ^ 10,
             t_exit = 3 * 10 ^ 10\<rparr>) \<and>
   ray_tetra_intersection_vjp (Vec3 (1 / 10) (1 / 10) (3 * 10 ^ 10)) (Vec3 0 0 (- 1))
     (Vec3 0 0 0) (Vec3 1 0 0) (Vec3 0 1 0) (Vec3 0 0 1) 1 1 (0, 0, 0, 0) = Inl OutOfBounds"
  using far_face0 far_face1 far_face2 far_face3 far_tetra far_vjp
  unfolding example_defs by simp

text \<open>
  Claim C8 as it is stated asks for \<open>t_entry\<close> near \<open>1.8\<close> in the scenario of the unit
  tetrahedron. The code gives \<open>t_entry = 1.2\<close>, which is \<open>0.6\<close> away.
\<close>

theorem unit_tetra_scenario_counterexample:
  "t_entry (snd (ray_tetra_intersection exact (Vec3 (1 / 10) (1 / 10) 2) (Vec3 0 0 (- 1))
      (Vec3 0 0 0) (Vec3 1 0 0) (Vec3 0 1 0) (Vec3 0 0 1))) = 6 / 5 \<and>
   \<bar>t_entry (snd (ray_tetra_intersection exact (Vec3 (1 / 10) (1 / 10) 2) (Vec3 0 0 (- 1))
      (Vec3 0 0 0) (Vec3 1 0 0) (Vec3 0 1 0) (Vec3 0 0 1))) - 18 / 10\<bar> = 6 / 10"
  using near_tetra [unfolded example_defs] by simp

text \<open>
  Claim C8, as the code has it. On the unit tetrahedron with vertices \<open>(0,0,0)\<close>,
  \<open>(1,0,0)\<close>, \<open>(0,1,0)\<close>, \<open>(0,0,1)\<close>, the ray with origin \<open>(0.1, 0.1, 2)\<close> and direction
  \<open>(0, 0, -1)\<close> is a hit that enters by Face1 at \<open>t_entry = 1.2\<close> and leaves by Face0 at
  \<open>t_exit = 2\<close>.
\<close>

theorem unit_tetra_scenario:
  "ray_tetra_intersection exact (Vec3 (1 / 10) (1 / 10) 2) (Vec3 0 0 (- 1))
      (Vec3 0 0 0) (Vec3 1 0 0) (Vec3 0 1 0) (Vec3 0 0 1) =
     (True, \<lparr>entry_face_idx = 1, exit_face_idx = 0, t_entry = 12 / 10, t_exit = 2\<rparr>)"
  using near_tetra [unfolded example_defs] by simp

section \<open>The closed forms of the two integrals\<close>




text \<open>
  Claim C10. Swapping the two bounds of the segment negates \<open>integral\<close>, in the guarded
  branch and in the branch of the error function alike.
\<close>

theorem integral_swap_bounds:
  "integral erff ray_o ray_d tmin tmax mean3d precision =
     - integral erff ray_o ray_d tmax tmin mean3d precision"
proof (cases "dot ray_d (mmulv precision ray_d) > 1 / 10 ^ 6")
  case True
  define aa where "aa = dot ray_d (mmulv precision ray_d)"
  define beta2 where "beta2 = dot ray_d (mmulv precision (mean3d - ray_o)) / aa"
  define E where "E = (\<lambda>t. erff (sqrt (aa * (1 / 2)) * (t - beta2)))"
  have fwd: "integral erff ray_o ray_d tmin tmax mean3d precision = 1 / 2 * (E tmax - E tmin)"
    using True unfolding integral_def Let_def E_def beta2_def aa_def by (simp only: if_True)
  have bwd: "integral erff ray_o ray_d tmax tmin mean3d precision = 1 / 2 * (E tmin - E tmax)"
    using True unfolding integral_def Let_def E_def beta2_def aa_def by (simp only: if_True)
  show ?thesis
    unfolding fwd bwd by (simp add: field_simps)
next
  case False
  then show ?thesis
    unfolding integral_def Let_def by (simp only: if_False minus_zero)
qed

section \<open>The backward routines of the tetrahedron\<close>

text \<open>
  Claim C7. When both upstream gradients are exactly zero, the recomputing routine and
  the shortcut routine return at once and leave the four vertex gradient accumulators
  as they were on entry.
\<close>

theorem tetra_vjp_zero_upstream:
  "ray_tetra_intersection_vjp o' d v0 v1 v2 v3 0 0 g = Inr g \<and>
   ray_tetra_intersection_vjp_shortcut o' d v0 v1 v2 v3 entry_idx exit_idx 0 0 g = Inr g"
  by (simp add: ray_tetra_intersection_vjp_def ray_tetra_intersection_vjp_shortcut_def)

lemma face_at_out: "idx \<notin> {0, 1, 2, 3} \<Longrightarrow> face_at (faces v0 v1 v2 v3) idx = Inl OutOfBounds"
  by (auto simp: face_at_def faces_def)

lemma face_at_in:
  "idx \<in> {0, 1, 2, 3} \<Longrightarrow> \<exists>a b c. face_at (faces v0 v1 v2 v3) idx = Inr (a, b, c)"
  by (auto simp: face_at_def faces_def)

text \<open>
  Claim C9. The shortcut routine does not check the face indices it is given. When at
  least one upstream gradient is nonzero, its reads of the face table stay inside the
  four rows exactly when both indices are among \<open>0, 1, 2, 3\<close>; any other index, such as
  the \<open>-1\<close> of a forward pass without a hit, reaches the read out of bounds.
\<close>

theorem shortcut_out_of_bounds_iff:
  "v_t_entry \<noteq> 0 \<or> v_t_exit \<noteq> 0 \<Longrightarrow>
   ray_tetra_intersection_vjp_shortcut o' d v0 v1 v2 v3 entry_idx exit_idx
       v_t_entry v_t_exit g = Inl OutOfBounds
   \<longleftrightarrow> \<not> (entry_idx \<in> {0, 1, 2, 3} \<and> exit_idx \<in> {0, 1, 2, 3})"
proof -
  assume nz: "v_t_entry \<noteq> 0 \<or> v_t_exit \<noteq> 0"
  show ?thesis
  proof (cases "entry_idx \<in> {0, 1, 2, 3}")
    case False
    then show ?thesis
      using nz face_at_out[OF False, of v0 v1 v2 v3]
      by (simp only: ray_tetra_intersection_vjp_shortcut_def) auto
  next
    case e: True
    then obtain a b c where fe: "face_at (faces v0 v1 v2 v3) entry_idx = Inr (a, b, c)"
      using face_at_in by blast
    show ?thesis
    proof (cases "exit_idx \<in> {0, 1, 2, 3}")
      case False
      then show ?thesis
        using nz e fe face_at_out[OF False, of v0 v1 v2 v3]
        by (simp only: ray_tetra_intersection_vjp_shortcut_def Let_def) auto
    next
      case x: True
      then obtain a' b' c' where fx: "face_at (faces v0 v1 v2 v3) exit_idx = Inr (a', b', c')"
        using face_at_in by blast
      show ?thesis
        using nz e x fe fx
        by (simp only: ray_tetra_intersection_vjp_shortcut_def Let_def) auto
    qed
  qed
qed

text \<open>
  The theorem at the indices \<open>-1\<close> and \<open>-1\<close> that a forward pass without a hit produces,
  with upstream gradients \<open>1\<close> and \<open>0\<close>.
\<close>

theorem shortcut_out_of_bounds_iff_witness:
  "ray_tetra_intersection_vjp_shortcut origin_near ray_down U0 U1 U2 U3 (- 1) (- 1) 1 0
     (0, 0, 0, 0) = Inl OutOfBounds"
  using shortcut_out_of_bounds_iff
    [of 1 0 origin_near ray_down U0 U1 U2 U3 "- 1" "- 1" "(0, 0, 0, 0)"]
  by simp




text \<open>
  The contribution of a call to the shortcut routine, and to the vjp of the opacity,
  does not depend on the values the accumulators come in with: these are added to it.
\<close>

lemma switch_face_idx_add:
  "switch_face_idx idx f (vgrads_add g c) = vgrads_add g (switch_face_idx idx f c)"
  by (cases f, cases g, cases c) (simp add: add.assoc)

lemma vgrads_add_zero: "vgrads_add g (0, 0, 0, 0) = g"
  by (cases g) simp

lemma shortcut_accumulates:
  "ray_tetra_intersection_vjp_shortcut o' d v0 v1 v2 v3 entry_idx exit_idx
       v_t_entry v_t_exit g =
   (case ray_tetra_intersection_vjp_shortcut o' d v0 v1 v2 v3 entry_idx exit_idx
           v_t_entry v_t_exit (0, 0, 0, 0) of
      Inl e \<Rightarrow> Inl e
    | Inr c \<Rightarrow> Inr (vgrads_add g c))"
proof -
  have sw: "switch_face_idx i f g = vgrads_add g (switch_face_idx i f (0, 0, 0, 0))" for i f
    using switch_face_idx_add[of i f g "(0, 0, 0, 0)"] by (simp add: vgrads_add_zero)
  have sw2: "switch_face_idx j f' (switch_face_idx i f g) =
      vgrads_add g (switch_face_idx j f' (switch_face_idx i f (0, 0, 0, 0)))" for i j f f'
    by (subst sw) (simp only: switch_face_idx_add)
  show ?thesis
    unfolding ray_tetra_intersection_vjp_shortcut_def Let_def
    by (simp add: vgrads_add_zero sw2 split: sum.splits prod.splits)
qed

lemma opacity_vjp_accumulates:
  "integral_opacity_vjp density ray_o ray_d mean3d precision v_opacity
       (v_mean3d, v_precision, v_density) =
   (case integral_opacity_vjp density ray_o ray_d mean3d precision v_opacity (0, 0, 0) of
      (c_mean3d, c_precision, c_density) \<Rightarrow>
        (v_mean3d + c_mean3d, v_precision + c_precision, v_density + c_density))"
  unfolding integral_opacity_vjp_def Let_def
  by (simp add: add.assoc)

text \<open>
  Claim C3, as the code has it. The triangle routine sets its three outputs to zero
  first: its result does not depend on the values they come in with. The recomputing
  routine of the tetrahedron does the same for its four accumulators whenever at least one
  upstream gradient is nonzero. The shortcut routine and \<open>integral_opacity_vjp\<close> do not
  set their accumulators to zero: their result is the value the caller passed in plus the
  contribution of the call.
\<close>

theorem vjp_accumulator_initialisation:
  "ray_triangle_intersection_vjp o' d v0 v1 v2 v_t gt =
     ray_triangle_intersection_vjp o' d v0 v1 v2 v_t (0, 0, 0) \<and>
   (v_t_entry \<noteq> 0 \<or> v_t_exit \<noteq> 0 \<longrightarrow>
      ray_tetra_intersection_vjp o' d v0 v1 v2 v3 v_t_entry v_t_exit g =
      ray_tetra_intersection_vjp o' d v0 v1 v2 v3 v_t_entry v_t_exit (0, 0, 0, 0)) \<and>
   ray_tetra_intersection_vjp_shortcut o' d v0 v1 v2 v3 entry_idx exit_idx
       v_t_entry v_t_exit g =
     (case ray_tetra_intersection_vjp_shortcut o' d v0 v1 v2 v3 entry_idx exit_idx
             v_t_entry v_t_exit (0, 0, 0, 0) of
        Inl e \<Rightarrow> Inl e
      | Inr c \<Rightarrow> Inr (vgrads_add g c)) \<and>
   integral_opacity_vjp density ray_o ray_d mean3d precision v_opacity
       (v_mean3d, v_precision, v_density) =
     (case integral_opacity_vjp density ray_o ray_d mean3d precision v_opacity (0, 0, 0) of
        (c_mean3d, c_precision, c_density) \<Rightarrow>
          (v_mean3d + c_mean3d, v_precision + c_precision, v_density + c_density))"
proof (intro conjI impI)
  show "ray_triangle_intersection_vjp o' d v0 v1 v2 v_t gt =
     ray_triangle_intersection_vjp o' d v0 v1 v2 v_t (0, 0, 0)"
    by (simp add: ray_triangle_intersection_vjp_def split: prod.splits)
next
  assume "v_t_entry \<noteq> 0 \<or> v_t_exit \<noteq> 0"
  then show "ray_tetra_intersection_vjp o' d v0 v1 v2 v3 v_t_entry v_t_exit g =
      ray_tetra_intersection_vjp o' d v0 v1 v2 v3 v_t_entry v_t_exit (0, 0, 0, 0)"
    by (auto simp: ray_tetra_intersection_vjp_def)
qed (rule shortcut_accumulates, rule opacity_vjp_accumulates)

text \<open>
  The theorem with both upstream gradients \<open>1\<close> and every accumulator coming in as
  \<open>(1, 0, 0)\<close>: the recomputing routine returns what it returns from zero, the shortcut
  routine returns that plus \<open>(1, 0, 0)\<close> in every accumulator.
\<close>

theorem vjp_accumulator_initialisation_witness:
  "ray_tetra_intersection_vjp origin_near ray_down U0 U1 U2 U3 1 1 (U1, U1, U1, U1) =
     ray_tetra_intersection_vjp origin_near ray_down U0 U1 U2 U3 1 1 (0, 0, 0, 0) \<and>
   ray_tetra_intersection_vjp_shortcut origin_near ray_down U0 U1 U2 U3 1 0 1 1
       (U1, U1, U1, U1) =
     Inr (Vec3 1 0 (- (4 / 5)), Vec3 (9 / 10) (- (1 / 10)) (- (1 / 5)),
          Vec3 (9 / 10) (- (1 / 10)) (- (1 / 5)), Vec3 (1 / 5) (- (4 / 5)) (- (4 / 5)))"
  using vjp_accumulator_initialisation
    [where o' = origin_near and d = ray_down and ?v0.0 = U0 and ?v1.0 = U1 and ?v2.0 = U2
       and ?v3.0 = U3 and v_t_entry = 1 and v_t_exit = 1 and entry_idx = 1 and exit_idx = 0
       and g = "(U1, U1, U1, U1)"]
    near_shortcut
  by (simp add: example_defs)

text \<open>
  Claim C3 as it is stated fails. With every accumulator coming in as \<open>(1, 0, 0)\<close> the
  shortcut routine returns gradients that differ from those it returns from zero, and
  \<open>integral_opacity_vjp\<close> at density \<open>0\<close> returns the values it was given.
\<close>

theorem stale_accumulator_counterexample:
  "ray_tetra_intersection_vjp_shortcut origin_near ray_down U0 U1 U2 U3 1 0 1 1
       (U1, U1, U1, U1) =
     Inr (Vec3 1 0 (- (4 / 5)), Vec3 (9 / 10) (- (1 / 10)) (- (1 / 5)),
          Vec3 (9 / 10) (- (1 / 10)) (- (1 / 5)), Vec3 (1 / 5) (- (4 / 5)) (- (4 / 5))) \<and>
   ray_tetra_intersection_vjp_shortcut origin_near ray_down U0 U1 U2 U3 1 0 1 1
       (0, 0, 0, 0) =
     Inr (Vec3 0 0 (- (4 / 5)), Vec3 (- (1 / 10)) (- (1 / 10)) (- (1 / 5)),
          Vec3 (- (1 / 10)) (- (1 / 10)) (- (1 / 5)), Vec3 (- (4 / 5)) (- (4 / 5)) (- (4 / 5))) \<and>
   integral_opacity_vjp 0 (Vec3 0 0 0) (Vec3 1 0 0) (Vec3 0 0 0)
       (Mat3 (Vec3 1 0 0) (Vec3 0 1 0) (Vec3 0 0 1)) 1
       (Vec3 1 0 0, Mat3 (Vec3 1 0 0) (Vec3 0 1 0) (Vec3 0 0 1), 5) =
     (Vec3 1 0 0, Mat3 (Vec3 1 0 0) (Vec3 0 1 0) (Vec3 0 0 1), 5)"
proof -
  have "ray_tetra_intersection_vjp_shortcut origin_near ray_down U0 U1 U2 U3 1 0 1 1
       (U1, U1, U1, U1) =
     Inr (Vec3 1 0 (- (4 / 5)), Vec3 (9 / 10) (- (1 / 10)) (- (1 / 5)),
          Vec3 (9 / 10) (- (1 / 10)) (- (1 / 5)), Vec3 (1 / 5) (- (4 / 5)) (- (4 / 5)))"
    by (simp add: ray_tetra_intersection_vjp_shortcut_def face_at_def faces_def
        ray_triangle_intersection_vjp_def example_defs zero_vec3_def Let_def)
  then show ?thesis
    using near_shortcut by (simp add: integral_opacity_vjp_def)
qed

end
